theory Spec2Isabelle
  imports Complex_Main
begin

section \<open>Python strings\<close>

text \<open>
  A Python \<open>str\<close> is modelled as a \<open>string\<close> (a list of bytes, UTF-8). \<open>str.lower\<close> is
  modelled on the ASCII letters; every other byte is left as it is.
\<close>

definition lower_char :: "char \<Rightarrow> char" where
  "lower_char c =
     (let n = (of_char c :: nat) in if 65 \<le> n \<and> n \<le> 90 then char_of (n + 32) else c)"

definition lower :: "string \<Rightarrow> string" where
  "lower s = map lower_char s"

text \<open>\<open>starts_with s t\<close> is \<open>s.startswith(t)\<close>.\<close>

fun starts_with :: "string \<Rightarrow> string \<Rightarrow> bool" where
  "starts_with s [] = True"
| "starts_with [] (c # t) = False"
| "starts_with (d # s) (c # t) = (d = c \<and> starts_with s t)"

text \<open>\<open>py_in t s\<close> is the substring test \<open>t in s\<close>.\<close>

fun py_in :: "string \<Rightarrow> string \<Rightarrow> bool" where
  "py_in t [] = (t = [])"
| "py_in t (c # s) = (starts_with (c # s) t \<or> py_in t s)"

text \<open>
  \<open>replace old new s\<close> is \<open>s.replace(old, new)\<close>: every occurrence of \<open>old\<close>, found from left
  to right without overlap, becomes \<open>new\<close>; an empty \<open>old\<close> matches before every character
  and at the end.
\<close>

fun replace_scan :: "string \<Rightarrow> string \<Rightarrow> string \<Rightarrow> string" where
  "replace_scan old new [] = []"
| "replace_scan old new (c # s) =
     (if starts_with (c # s) old
      then new @ replace_scan old new (drop (length old - 1) s)
      else c # replace_scan old new s)"

definition replace :: "string \<Rightarrow> string \<Rightarrow> string \<Rightarrow> string" where
  "replace old new s =
     (if old = [] then new @ concat (map (\<lambda>c. c # new) s) else replace_scan old new s)"

text \<open>\<open>join_sp xs\<close> is \<open>' '.join(xs)\<close>.\<close>

fun join_sp :: "string list \<Rightarrow> string" where
  "join_sp [] = []"
| "join_sp [x] = x"
| "join_sp (x # y # ys) = x @ '' '' @ join_sp (y # ys)"


text \<open>The ASCII characters for which \<open>str.isspace\<close> holds.\<close>

definition is_space :: "char \<Rightarrow> bool" where
  "is_space c = (c \<in> {CHR '' '', CHR 0x09, CHR 0x0A, CHR 0x0B, CHR 0x0C, CHR 0x0D})"

section \<open>Configuration\<close>

definition TOP_K :: int where
  "TOP_K = 10"

definition MIN_SIMILARITY :: real where
  "MIN_SIMILARITY = 0.3"

definition MEDICAL_SYNONYMS :: "(string \<times> string list) list" where
  "MEDICAL_SYNONYMS =
     [(''vomit'', [''vomiting'', ''throwing up'', ''emesis'']),
      (''diarrhea'', [''loose stool'', ''loose motion'', ''watery stool'']),
      (''pee'', [''urinate'', ''urine'', ''urination'']),
      (''poop'', [''stool'', ''feces'', ''defecate'']),
      (''cough'', [''coughing'', ''hacking'']),
      (''scratch'', [''scratching'', ''itching'', ''itchy'']),
      (''limp'', [''limping'', ''lame'', ''not walking'']),
      (''breath'', [''breathing'', ''respiratory'', ''panting'']),
      (''eat'', [''eating'', ''appetite'', ''food'']),
      (''blood'', [''bleeding'', ''bloody''])]"

definition EMERGENCY_KEYWORDS :: "string list" where
  "EMERGENCY_KEYWORDS =
     [''bleeding'', ''blood'', ''seizure'', ''unconscious'', ''not breathing'',
      ''collapsed'', ''severe pain'', ''bloat'', ''poisoning'', ''trauma'',
      ''snake bite'', ''broken bone'', ''can't stand'', ''blue gums'']"

section \<open>Query expansion and emergency detection\<close>

text \<open>
  The inner loop of \<open>expand_query\<close>, over \<open>synonyms[:2]\<close>: a synonym that is not in the
  lower-cased query appends the lower-cased query with the term replaced.
\<close>

fun add_variants :: "string \<Rightarrow> string \<Rightarrow> string list \<Rightarrow> string list \<Rightarrow> string list" where
  "add_variants query_lower t [] expanded = expanded"
| "add_variants query_lower t (syn # syns) expanded =
     add_variants query_lower t syns
       (if \<not> py_in syn query_lower then expanded @ [replace t syn query_lower]
        else expanded)"

text \<open>The outer loop, over the items of the synonym table in their order.\<close>

fun expand_loop :: "string \<Rightarrow> (string \<times> string list) list \<Rightarrow> string list \<Rightarrow> string list" where
  "expand_loop query_lower [] expanded = expanded"
| "expand_loop query_lower ((t, synonyms) # rest) expanded =
     expand_loop query_lower rest
       (if py_in t query_lower then add_variants query_lower t (take 2 synonyms) expanded
        else expanded)"

definition expand_query :: "string \<Rightarrow> string" where
  "expand_query query =
     (let query_lower = lower query;
          expanded = expand_loop query_lower MEDICAL_SYNONYMS [query]
      in join_sp (take 3 expanded))"

definition detect_emergency :: "string \<Rightarrow> bool" where
  "detect_emergency query =
     (let query_lower = lower query
      in list_ex (\<lambda>keyword. py_in keyword query_lower) EMERGENCY_KEYWORDS)"

text \<open>
  The expansion as the specification words it: for each table term that is a substring of
  the lower-cased query, one variant for each of the term's first two synonyms that is not
  already a substring of the lower-cased query, the term replaced by the synonym.
\<close>

definition spec_variants :: "string \<Rightarrow> string list" where
  "spec_variants query =
     concat (map (\<lambda>(t, synonyms).
        if py_in t (lower query)
        then map (\<lambda>syn. replace t syn (lower query))
               (filter (\<lambda>syn. \<not> py_in syn (lower query)) (take 2 synonyms))
        else []) MEDICAL_SYNONYMS)"

section \<open>Values, errors and dictionaries\<close>

text \<open>
  A value read from a dataset file or parsed from the generative boundary's output is a JSON
  value. A Python \<open>dict\<close> with string keys is an association list in insertion order, looked
  up with \<open>map_of\<close>.
\<close>

datatype json =
    JNull
  | JBool bool
  | JInt int
  | JFloat real
  | JStr string
  | JArr "json list"
  | JObj "(string \<times> json) list"

type_synonym dict = "(string \<times> json) list"

text \<open>
  The exceptions the code can meet: the three raised by the interpreter on the paths
  modelled here, and \<open>Raised\<close> for any other exception a boundary call raises.
\<close>

datatype error = AttributeError | TypeError | IndexError | Raised string

text \<open>\<open>dict_get d k dflt\<close> is \<open>d.get(k, dflt)\<close>.\<close>

definition dict_get :: "(string \<times> 'v) list \<Rightarrow> string \<Rightarrow> 'v \<Rightarrow> 'v" where
  "dict_get d k dflt = (case map_of d k of None \<Rightarrow> dflt | Some v \<Rightarrow> v)"

text \<open>\<open>dict_set k v d\<close> is \<open>d[k] = v\<close>: an existing key keeps its place, a new one goes last.\<close>

fun dict_set :: "string \<Rightarrow> 'v \<Rightarrow> (string \<times> 'v) list \<Rightarrow> (string \<times> 'v) list" where
  "dict_set k v [] = [(k, v)]"
| "dict_set k v (p # ps) = (if fst p = k then (k, v) # ps else p # dict_set k v ps)"

text \<open>\<open>py_index xs i\<close> is \<open>xs[i]\<close>: a negative index counts from the end.\<close>

definition py_index :: "'a list \<Rightarrow> int \<Rightarrow> error + 'a" where
  "py_index xs i =
     (if 0 \<le> i \<and> i < int (length xs) then Inr (xs ! nat i)
      else if i < 0 \<and> - int (length xs) \<le> i then Inr (xs ! nat (int (length xs) + i))
      else Inl IndexError)"

text \<open>\<open>slice_to k xs\<close> is \<open>xs[:k]\<close>.\<close>

definition slice_to :: "int \<Rightarrow> 'a list \<Rightarrow> 'a list" where
  "slice_to k xs = (if 0 \<le> k then take (nat k) xs else take (nat (int (length xs) + k)) xs)"

section \<open>System state and boundaries\<close>

text \<open>
  The fields of \<open>SnoutiqRAG\<close> that the code assigns. The FAISS index (\<open>IndexFlatIP\<close>) is
  the list of the vectors added to it, \<open>None\<close> before it is built.
\<close>

record rag_state =
  documents :: "string list"
  metadata :: "dict list"
  index :: "real list list option"
  loaded :: bool

definition init_state :: rag_state where
  "init_state = \<lparr>documents = [], metadata = [], index = None, loaded = False\<rparr>"

text \<open>
  What the code calls and does not define, taken as parameters:
  \<^item> \<open>encode\<close>: \<open>self.embedder.encode(texts, normalize_embeddings=True)\<close>;
  \<^item> \<open>index_search ix q k\<close>: \<open>index.search(q, k)\<close> on the index holding \<open>ix\<close>, as the list
    \<open>zip(scores[0], indices[0])\<close>;
  \<^item> \<open>index_new_raises d\<close>: the exception \<open>faiss.IndexFlatIP(d)\<close> raises, if any;
  \<^item> \<open>index_add_raises v\<close>: the exception \<open>index.add(v.astype('float32'))\<close> raises, if any;
  \<^item> \<open>generate_content\<close>: \<open>self.llm.generate_content(prompt).text\<close>;
  \<^item> \<open>json_loads\<close>: \<open>json.loads\<close>;
  \<^item> \<open>json_load_file\<close>: opening a file and \<open>json.load\<close> on it;
  \<^item> \<open>now_isoformat\<close>: \<open>datetime.now().isoformat()\<close>;
  \<^item> \<open>py_str\<close>: the text an f-string gives for a JSON value that is not a string.
  Each call that can raise returns \<open>Inl\<close> of the exception. Similarity scores are reals.
\<close>

record boundary =
  encode :: "string list \<Rightarrow> error + real list list"
  index_search :: "real list list \<Rightarrow> real list list \<Rightarrow> int \<Rightarrow> error + (real \<times> int) list"
  index_new_raises :: "nat \<Rightarrow> error option"
  index_add_raises :: "real list list \<Rightarrow> error option"
  generate_content :: "string \<Rightarrow> error + string"
  json_loads :: "string \<Rightarrow> error + json"
  json_load_file :: "string \<Rightarrow> error + json"
  now_isoformat :: string
  py_str :: "json \<Rightarrow> string"

text \<open>The text of a value inside an f-string: a string is itself.\<close>

definition format_value :: "boundary \<Rightarrow> json \<Rightarrow> string" where
  "format_value bd v = (case v of JStr s \<Rightarrow> s | _ \<Rightarrow> py_str bd v)"

section \<open>Search\<close>

record search_result =
  score :: real
  result_metadata :: dict
  result_text :: string

definition SEVERITY_BOOST :: "(string \<times> real) list" where
  "SEVERITY_BOOST = [(''emergency'', 1.5), (''urgent'', 1.2), (''routine'', 1.0)]"

text \<open>
  \<open>SEVERITY_BOOST.get(severity, 1.0)\<close>: a list or a dictionary is unhashable and raises
  \<open>TypeError\<close>; any other value that is not a key of the table gives the default.
\<close>

definition severity_boost :: "json \<Rightarrow> error + real" where
  "severity_boost severity =
     (case severity of
        JStr s \<Rightarrow> Inr (dict_get SEVERITY_BOOST s 1.0)
      | JArr _ \<Rightarrow> Inl TypeError
      | JObj _ \<Rightarrow> Inl TypeError
      | _ \<Rightarrow> Inr 1.0)"

text \<open>
  The species test \<open>species and meta.get('species', '').lower() != species.lower()\<close>:
  \<open>None\<close> and the empty string are falsy and skip the comparison; a species value that is
  not a string has no \<open>lower\<close> and raises \<open>AttributeError\<close>.
\<close>

definition species_mismatch :: "string option \<Rightarrow> dict \<Rightarrow> error + bool" where
  "species_mismatch species meta =
     (case species of
        None \<Rightarrow> Inr False
      | Some sp \<Rightarrow>
          if sp = [] then Inr False
          else (case dict_get meta ''species'' (JStr []) of
                  JStr s \<Rightarrow> Inr (lower s \<noteq> lower sp)
                | _ \<Rightarrow> Inl AttributeError))"

text \<open>The loop over the candidates; the first exception ends it.\<close>

fun collect_results ::
  "rag_state \<Rightarrow> string option \<Rightarrow> (real \<times> int) list \<Rightarrow> error + search_result list" where
  "collect_results st species [] = Inr []"
| "collect_results st species ((sc, idx) # rest) =
     (if sc < MIN_SIMILARITY then collect_results st species rest
      else case py_index (metadata st) idx of
        Inl e \<Rightarrow> Inl e
      | Inr meta \<Rightarrow>
          (case species_mismatch species meta of
             Inl e \<Rightarrow> Inl e
           | Inr True \<Rightarrow> collect_results st species rest
           | Inr False \<Rightarrow>
               (case severity_boost (dict_get meta ''severity'' (JStr ''routine'')) of
                  Inl e \<Rightarrow> Inl e
                | Inr boost \<Rightarrow>
                    (case py_index (documents st) idx of
                       Inl e \<Rightarrow> Inl e
                     | Inr txt \<Rightarrow>
                         (case collect_results st species rest of
                            Inl e \<Rightarrow> Inl e
                          | Inr results \<Rightarrow>
                              Inr (\<lparr>score = sc * boost, result_metadata = meta,
                                    result_text = txt\<rparr> # results))))))"

text \<open>
  The candidates of a query on a loaded system: the expanded query is embedded and the
  index is asked for \<open>min(top_k * 2, len(self.documents))\<close> neighbours.
\<close>

definition index_candidates ::
  "boundary \<Rightarrow> rag_state \<Rightarrow> string \<Rightarrow> int \<Rightarrow> error + (real \<times> int) list" where
  "index_candidates bd st query top_k =
     (let expanded_query = expand_query query
      in case encode bd [expanded_query] of
           Inl e \<Rightarrow> Inl e
         | Inr query_emb \<Rightarrow>
             (case index st of
                None \<Rightarrow> Inl AttributeError
              | Some ix \<Rightarrow>
                  index_search bd ix query_emb
                    (min (top_k * 2) (int (length (documents st))))))"

text \<open>
  \<open>results.sort(key=lambda x: x['score'], reverse=True)\<close> is a stable sort, descending.
\<close>

definition sort_by_score :: "search_result list \<Rightarrow> search_result list" where
  "sort_by_score results = sort_key (\<lambda>x. - score x) results"

definition search ::
  "boundary \<Rightarrow> rag_state \<Rightarrow> string \<Rightarrow> string option \<Rightarrow> int \<Rightarrow> error + search_result list" where
  "search bd st query species top_k =
     (if \<not> loaded st then Inr []
      else case index_candidates bd st query top_k of
        Inl e \<Rightarrow> Inl e
      | Inr found \<Rightarrow>
          (case collect_results st species found of
             Inl e \<Rightarrow> Inl e
           | Inr results \<Rightarrow> Inr (slice_to top_k (sort_by_score results))))"

section \<open>Fallback response\<close>

text \<open>
  Pet details are a dictionary of strings. A response is a dictionary of JSON values.
\<close>

type_synonym pet = "(string \<times> string) list"

definition create_fallback_response ::
  "boundary \<Rightarrow> pet \<Rightarrow> search_result list \<Rightarrow> bool \<Rightarrow> dict" where
  "create_fallback_response bd pet_details matched_entries is_emergency =
     (case matched_entries of
        [] \<Rightarrow>
          [(''pet_name'', JStr (dict_get pet_details ''name'' ''Your pet'')),
           (''summary'', JStr ''We couldn't find specific information for these symptoms.''),
           (''what_we_found'', JStr ''The symptoms you described don't closely match our database. This doesn't mean it's not serious.''),
           (''immediate_steps'',
              JArr [JStr ''Monitor your pet closely'',
                    JStr ''Note any changes in behavior or symptoms'',
                    JStr ''Keep your pet comfortable'']),
           (''home_care_tips'',
              JArr [JStr ''Ensure fresh water is available'',
                    JStr ''Keep in a cool, comfortable place'',
                    JStr ''Don't force food if not eating'']),
           (''when_to_see_vet'', JStr ''Given the uncertainty, we recommend consulting a veterinarian soon.''),
           (''urgency_level'', JStr (if is_emergency then ''urgent'' else ''routine'')),
           (''service_recommendation'',
              JStr (if is_emergency then ''in_clinic'' else ''video_consult'')),
           (''confidence'', JStr ''low''),
           (''additional_notes'', JStr ''Without clear symptom matches, professional veterinary assessment is recommended.'')]
      | first_match # _ \<Rightarrow>
          (let top = result_metadata first_match
           in [(''pet_name'', JStr (dict_get pet_details ''name'' ''Your pet'')),
               (''summary'',
                  JStr (''Based on symptoms, this appears to be related to '' @
                        format_value bd (dict_get top ''symptom'' (JStr ''the condition'')))),
               (''what_we_found'', dict_get top ''description'' (JStr [])),
               (''immediate_steps'',
                  JArr [JStr ''Follow home care guidelines below'',
                        JStr ''Monitor symptoms closely'',
                        JStr ''Note any worsening'']),
               (''home_care_tips'',
                  JArr [dict_get top ''home_care_india'' (JStr ''Keep comfortable and monitor'')]),
               (''when_to_see_vet'',
                  dict_get top ''vet_triggers'' (JStr ''If symptoms persist or worsen'')),
               (''urgency_level'', dict_get top ''severity'' (JStr ''routine'')),
               (''service_recommendation'',
                  dict_get top ''service_recommendation'' (JStr ''video_consult'')),
               (''confidence'', JStr ''medium''),
               (''additional_notes'', dict_get top ''indian_climate_factors'' (JStr []))]))"

section \<open>Response generation\<close>

definition newline :: string where
  "newline = [CHR 0x0A]"

text \<open>\<open>text_lines ls\<close> is every line of \<open>ls\<close> followed by a newline.\<close>

definition text_lines :: "string list \<Rightarrow> string" where
  "text_lines ls = concat (map (\<lambda>l. l @ newline) ls)"

text \<open>\<open>join_newline xs\<close> is \<open>'\n'.join(xs)\<close>.\<close>

fun join_newline :: "string list \<Rightarrow> string" where
  "join_newline [] = []"
| "join_newline [x] = x"
| "join_newline (x # y # ys) = x @ newline @ join_newline (y # ys)"

text \<open>The decimal digits of a natural number.\<close>

fun str_nat :: "nat \<Rightarrow> string" where
  "str_nat n =
     (if n < 10 then [char_of (48 + n)]
      else str_nat (n div 10) @ [char_of (48 + n mod 10)])"

declare str_nat.simps [simp del]

text \<open>One block of the context, for the match numbered \<open>i\<close>.\<close>

definition context_part :: "boundary \<Rightarrow> nat \<Rightarrow> search_result \<Rightarrow> string" where
  "context_part bd i entry =
     (let meta = result_metadata entry
      in newline @ text_lines
        [''Match '' @ str_nat i @ '':'',
         ''  Symptom: '' @ format_value bd (dict_get meta ''symptom'' (JStr ''N/A'')),
         ''  Description: '' @ format_value bd (dict_get meta ''description'' (JStr ''N/A'')),
         ''  Severity: '' @ format_value bd (dict_get meta ''severity'' (JStr ''N/A'')),
         ''  Home Care: '' @ format_value bd (dict_get meta ''home_care_india'' (JStr ''N/A'')),
         ''  When to See Vet: '' @ format_value bd (dict_get meta ''vet_triggers'' (JStr ''N/A''))])"

text \<open>The loop over \<open>enumerate(matched_entries[:3], 1)\<close>.\<close>

definition build_context :: "boundary \<Rightarrow> search_result list \<Rightarrow> string" where
  "build_context bd matched_entries =
     (let top3 = take 3 matched_entries
      in join_newline (map (\<lambda>(i, entry). context_part bd i entry)
                         (zip [1 ..< Suc (length top3)] top3)))"

definition pet_summary :: "pet \<Rightarrow> string" where
  "pet_summary pet_details =
     newline @ text_lines
       [''Pet Name: '' @ dict_get pet_details ''name'' ''Not provided'',
        ''Species: '' @ dict_get pet_details ''species'' ''Not provided'',
        ''Breed: '' @ dict_get pet_details ''breed'' ''Not provided'',
        ''Age: '' @ dict_get pet_details ''age'' ''Not provided'',
        ''Weight: '' @ dict_get pet_details ''weight'' ''Not provided'',
        ''Sex: '' @ dict_get pet_details ''sex'' ''Not provided'',
        ''Vaccination Status: '' @ dict_get pet_details ''vaccination_summary'' ''Not provided'',
        ''Medical History: '' @ dict_get pet_details ''medical_history'' ''Not provided'']"

text \<open>The warning sign and its variation selector, in UTF-8.\<close>

definition warning_sign :: string where
  "warning_sign = [CHR 0xE2, CHR 0x9A, CHR 0xA0, CHR 0xEF, CHR 0xB8, CHR 0x8F]"

definition build_prompt :: "pet \<Rightarrow> string \<Rightarrow> string \<Rightarrow> bool \<Rightarrow> string" where
  \<open>build_prompt pet_details query context is_emergency =
     newline @ text_lines
       [''You are a veterinary AI assistant for SNOUTIQ, a pet health platform in India.'',
        [],
        ''PET DETAILS:'',
        pet_summary pet_details,
        [],
        ''PET PARENT'S QUERY:'',
        query,
        [],
        ''RELEVANT MEDICAL INFORMATION:'',
        context,
        [],
        ''EMERGENCY STATUS: '' @
          (if is_emergency then warning_sign @ '' YES - URGENT ATTENTION NEEDED''
           else ''No immediate emergency detected''),
        [],
        ''INSTRUCTIONS:'',
        ''Generate a response for the pet parent in this EXACT JSON format:'',
        [],
        ''{'',
        ''  "pet_name": "'' @ dict_get pet_details ''name'' ''Your pet'' @ ''",'',
        ''  "summary": "Brief 1-2 sentence summary of the situation",'',
        ''  "what_we_found": "Detailed explanation based on symptoms and pet's medical history (3-4 sentences)",'',
        ''  "immediate_steps": ['',
        ''    "Step 1: What to do right now",'',
        ''    "Step 2: How to monitor",'',
        ''    "Step 3: What to avoid"'',
        ''  ],'',
        ''  "home_care_tips": ['',
        ''    "Tip 1: Specific care advice for India",'',
        ''    "Tip 2: What to watch for",'',
        ''    "Tip 3: How to make pet comfortable"'',
        ''  ],'',
        ''  "when_to_see_vet": "Clear criteria for when veterinary care is needed",'',
        ''  "urgency_level": "emergency/urgent/routine",'',
        ''  "service_recommendation": "in_clinic/video_consult",'',
        ''  "confidence": "high/medium/low",'',
        ''  "additional_notes": "Any breed-specific, age-specific, or climate considerations for India"'',
        ''}'',
        [],
        ''IMPORTANT:'',
        ''- Use simple, empathetic language for pet parents'',
        ''- Consider India's hot/humid climate'',
        ''- Consider pet's age, breed, and medical history'',
        ''- If emergency, stress immediate vet visit'',
        ''- Return ONLY valid JSON, no extra text'']\<close>

text \<open>
  \<open>re.search(r'\{.*\}', text, re.DOTALL)\<close>: the match starts at the first opening brace and,
  the star being greedy and the dot matching every character, ends at the last closing
  brace after it; there is no match when no closing brace follows the first opening one.
\<close>

definition re_search_braces :: "string \<Rightarrow> string option" where
  "re_search_braces txt =
     (case dropWhile (\<lambda>c. c \<noteq> CHR ''{'') txt of
        [] \<Rightarrow> None
      | c # body \<Rightarrow>
          if CHR ''}'' \<in> set body
          then Some (c # rev (dropWhile (\<lambda>d. d \<noteq> CHR ''}'') (rev body)))
          else None)"

definition query_metadata :: "boundary \<Rightarrow> search_result list \<Rightarrow> bool \<Rightarrow> dict" where
  "query_metadata bd matched_entries is_emergency =
     [(''timestamp'', JStr (now_isoformat bd)),
      (''num_matches'', JInt (int (length matched_entries))),
      (''is_emergency'', JBool is_emergency),
      (''top_match_score'',
         (case matched_entries of [] \<Rightarrow> JInt 0 | m # _ \<Rightarrow> JFloat (score m)))]"

text \<open>
  The body of the \<open>try\<close>. Storing \<open>query_metadata\<close> into a parsed value that is not a
  dictionary raises \<open>TypeError\<close>.
\<close>

definition try_generate ::
  "boundary \<Rightarrow> pet \<Rightarrow> search_result list \<Rightarrow> bool \<Rightarrow> string \<Rightarrow> error + dict" where
  "try_generate bd pet_details matched_entries is_emergency prompt =
     (case generate_content bd prompt of
        Inl e \<Rightarrow> Inl e
      | Inr txt \<Rightarrow>
          (case (case re_search_braces txt of
                   Some m \<Rightarrow> json_loads bd m
                 | None \<Rightarrow>
                     Inr (JObj (create_fallback_response bd pet_details matched_entries
                                  is_emergency))) of
             Inl e \<Rightarrow> Inl e
           | Inr (JObj result) \<Rightarrow>
               Inr (dict_set ''query_metadata''
                      (JObj (query_metadata bd matched_entries is_emergency)) result)
           | Inr _ \<Rightarrow> Inl TypeError))"

text \<open>\<open>except Exception\<close>: every exception of the body gives the fallback response.\<close>

definition generate_response :: "boundary \<Rightarrow> pet \<Rightarrow> string \<Rightarrow> search_result list \<Rightarrow> dict" where
  "generate_response bd pet_details query matched_entries =
     (let context = build_context bd matched_entries;
          is_emergency = detect_emergency query;
          prompt = build_prompt pet_details query context is_emergency
      in case try_generate bd pet_details matched_entries is_emergency prompt of
           Inr result \<Rightarrow> result
         | Inl e \<Rightarrow> create_fallback_response bd pet_details matched_entries is_emergency)"

section \<open>The pipeline\<close>

definition species_filter :: "pet \<Rightarrow> string option" where
  "species_filter pet_details =
     (let species = lower (dict_get pet_details ''species'' [])
      in if py_in ''dog'' species then Some ''dogs''
         else if py_in ''cat'' species then Some ''cats''
         else None)"

definition process_query :: "boundary \<Rightarrow> rag_state \<Rightarrow> pet \<Rightarrow> string \<Rightarrow> error + dict" where
  "process_query bd st pet_details query =
     (case search bd st query (species_filter pet_details) TOP_K of
        Inl e \<Rightarrow> Inl e
      | Inr matches \<Rightarrow> Inr (generate_response bd pet_details query matches))"

section \<open>Loading the datasets\<close>








section \<open>Notions used by the properties\<close>

text \<open>The prompt \<open>generate_response\<close> sends for a query and its matches.\<close>

definition prompt_of :: "boundary \<Rightarrow> pet \<Rightarrow> string \<Rightarrow> search_result list \<Rightarrow> string" where
  "prompt_of bd pet_details query matched_entries =
     build_prompt pet_details query (build_context bd matched_entries) (detect_emergency query)"

text \<open>
  The generative boundary fails on a prompt when the call raises, when its text has no
  braces for the pattern to match, or when the matched text does not parse to a dictionary.
\<close>

definition generation_fails :: "boundary \<Rightarrow> string \<Rightarrow> bool" where
  "generation_fails bd prompt =
     (case generate_content bd prompt of
        Inl e \<Rightarrow> True
      | Inr txt \<Rightarrow>
          (case re_search_braces txt of
             None \<Rightarrow> True
           | Some m \<Rightarrow> (case json_loads bd m of Inr (JObj d) \<Rightarrow> False | _ \<Rightarrow> True)))"

text \<open>The ten keys of a response that carry its content.\<close>

definition content_keys :: "string list" where
  "content_keys =
     [''pet_name'', ''summary'', ''what_we_found'', ''immediate_steps'', ''home_care_tips'',
      ''when_to_see_vet'', ''urgency_level'', ''service_recommendation'', ''confidence'',
      ''additional_notes'']"

definition urgency_levels :: "json list" where
  "urgency_levels = [JStr ''emergency'', JStr ''urgent'', JStr ''routine'']"



text \<open>
  A corpus entry is well formed when its species is a string (\<open>''\<close> when absent) and its
  severity is one of the three urgency levels (\<open>routine\<close> when absent); the corpus is well
  formed when every entry is and there is one document for each metadata record.
\<close>

definition entry_well_formed :: "dict \<Rightarrow> bool" where
  "entry_well_formed m =
     ((case dict_get m ''species'' (JStr []) of JStr s \<Rightarrow> True | _ \<Rightarrow> False) \<and>
      dict_get m ''severity'' (JStr ''routine'') \<in> set urgency_levels)"

definition corpus_well_formed :: "rag_state \<Rightarrow> bool" where
  "corpus_well_formed st =
     (list_all entry_well_formed (metadata st) \<and>
      length (documents st) = length (metadata st))"

text \<open>
  The candidates of the index search are in range when every candidate at or above the
  threshold carries a position that Python accepts as an index of the stored entries.
\<close>

definition candidates_in_range :: "rag_state \<Rightarrow> (real \<times> int) list \<Rightarrow> bool" where
  "candidates_in_range st found =
     list_all (\<lambda>(sc, idx). sc < MIN_SIMILARITY \<or>
                 (- int (length (metadata st)) \<le> idx \<and> idx < int (length (metadata st))))
       found"

text \<open>
  The retrieval returns for a query when the system is not loaded, or the embedding call
  and the index search return and the candidates are in range. Nothing here depends on the
  generative boundary.
\<close>

definition retrieval_returns :: "boundary \<Rightarrow> rag_state \<Rightarrow> string \<Rightarrow> bool" where
  "retrieval_returns bd st query =
     (if loaded st
      then (case index_candidates bd st query TOP_K of
              Inl e \<Rightarrow> False
            | Inr found \<Rightarrow> candidates_in_range st found)
      else True)"

section \<open>Example boundaries and states\<close>

text \<open>
  A stand-in for \<open>json.loads\<close> that parses one known text and rejects every other one.
\<close>

definition parse_only :: "string \<Rightarrow> json \<Rightarrow> string \<Rightarrow> error + json" where
  "parse_only known v s = (if s = known then Inr v else Inl (Raised ''JSONDecodeError''))"

text \<open>
  A boundary whose generative call gives \<open>reply\<close>, whose index search gives \<open>found\<close>, whose
  files are those of \<open>files\<close>, which embeds every text as a unit vector of dimension one and
  whose index is built without an exception.
\<close>

definition example_boundary ::
  "(error + string) \<Rightarrow> (string \<Rightarrow> error + json) \<Rightarrow> (real \<times> int) list \<Rightarrow> (string \<times> json) list
     \<Rightarrow> boundary" where
  "example_boundary reply parse found files =
     \<lparr>encode = (\<lambda>texts. Inr (map (\<lambda>t. [1]) texts)),
      index_search = (\<lambda>ix q k. Inr found),
      index_new_raises = (\<lambda>dimension. None),
      index_add_raises = (\<lambda>embeddings. None),
      generate_content = (\<lambda>prompt. reply),
      json_loads = parse,
      json_load_file =
        (\<lambda>filename. case map_of files filename of
                       None \<Rightarrow> Inl (Raised ''FileNotFoundError'')
                     | Some data \<Rightarrow> Inr data),
      now_isoformat = ''2025-01-01T00:00:00'',
      py_str = (\<lambda>v. ''?'')\<rparr>"

text \<open>The generative boundary is unreachable.\<close>

definition llm_down :: "error + string" where
  "llm_down = Inl (Raised ''unavailable'')"

definition high_confidence_reply :: string where
  \<open>high_confidence_reply = ''{"confidence": "high"}''\<close>

definition example_pet :: pet where
  "example_pet = [(''name'', ''Rex''), (''species'', ''Dog'')]"

definition routine_entry :: dict where
  "routine_entry =
     [(''symptom'', JStr ''itch''), (''severity'', JStr ''routine''), (''species'', JStr ''dogs''),
      (''category'', JStr ''skin'')]"

definition emergency_entry :: dict where
  "emergency_entry =
     [(''symptom'', JStr ''bloat''), (''severity'', JStr ''emergency''),
      (''species'', JStr ''Dogs''), (''category'', JStr ''gut'')]"

text \<open>A loaded system holding the two entries.\<close>

definition example_state :: rag_state where
  "example_state =
     \<lparr>documents = [''itch. '', ''bloat. ''],
      metadata = [routine_entry, emergency_entry],
      index = Some [[1], [1]],
      loaded = True\<rparr>"

text \<open>
  Two candidates of equal raw score, the routine entry found first, and a boundary whose
  index search gives them while the generative boundary is unreachable.
\<close>

definition example_found :: "(real \<times> int) list" where
  "example_found = [(0.5, 0), (0.5, 1)]"

definition retrieval_boundary :: boundary where
  "retrieval_boundary = example_boundary llm_down (parse_only [] JNull) example_found []"

definition emergency_result :: search_result where
  "emergency_result =
     \<lparr>score = 0.5 * 1.5, result_metadata = emergency_entry, result_text = ''bloat. ''\<rparr>"

definition routine_result :: search_result where
  "routine_result =
     \<lparr>score = 0.5 * 1.0, result_metadata = routine_entry, result_text = ''itch. ''\<rparr>"

text \<open>
  A query with no emergency keyword, a boundary whose generative call answers with an empty
  JSON object, one whose answer is an object holding only a confidence, and the
  \<open>query_metadata\<close> both give on a system that found nothing.
\<close>

definition example_query :: string where
  "example_query = ''my dog is limping''"

definition empty_object_boundary :: boundary where
  "empty_object_boundary = example_boundary (Inr ''{}'') (parse_only ''{}'' (JObj [])) [] []"

definition high_confidence_boundary :: boundary where
  "high_confidence_boundary =
     example_boundary (Inr high_confidence_reply)
       (parse_only high_confidence_reply (JObj [(''confidence'', JStr ''high'')])) [] []"

definition example_query_metadata :: dict where
  "example_query_metadata =
     [(''timestamp'', JStr ''2025-01-01T00:00:00''), (''num_matches'', JInt 0),
      (''is_emergency'', JBool False), (''top_match_score'', JInt 0)]"






section \<open>Properties of the string operations\<close>

lemma starts_with_iff: "starts_with s t \<longleftrightarrow> (\<exists>ss. s = t @ ss)"
  by (induction s t rule: starts_with.induct) auto

text \<open>\<open>py_in\<close> is the substring relation.\<close>

lemma py_in_iff: "py_in t s \<longleftrightarrow> (\<exists>ps ss. s = ps @ t @ ss)"
proof (induction s)
  case Nil
  then show ?case by simp
next
  case (Cons c s)
  show ?case
  proof
    assume "py_in t (c # s)"
    then consider "starts_with (c # s) t" | "py_in t s" by auto
    then show "\<exists>ps ss. c # s = ps @ t @ ss"
    proof cases
      case 1
      then obtain ss where "c # s = t @ ss" by (auto simp: starts_with_iff)
      then have "c # s = [] @ t @ ss" by simp
      then show ?thesis by blast
    next
      case 2
      then obtain ps ss where "s = ps @ t @ ss" using Cons.IH by blast
      then have "c # s = (c # ps) @ t @ ss" by simp
      then show ?thesis by blast
    qed
  next
    assume "\<exists>ps ss. c # s = ps @ t @ ss"
    then obtain ps ss where eq: "c # s = ps @ t @ ss" by blast
    show "py_in t (c # s)"
    proof (cases ps)
      case Nil
      with eq have "starts_with (c # s) t" by (auto simp: starts_with_iff)
      then show ?thesis by simp
    next
      case (Cons p ps')
      with eq have "s = ps' @ t @ ss" by simp
      then have "py_in t s" using Cons.IH by blast
      then show ?thesis by simp
    qed
  qed
qed

lemma py_in_subset: "py_in t s \<Longrightarrow> set t \<subseteq> set s"
  by (auto simp: py_in_iff)

lemma lower_space: "is_space c \<Longrightarrow> lower_char c = c"
  by (auto simp: is_space_def lower_char_def)

lemma lower_spaces: "\<forall>c\<in>set q. is_space c \<Longrightarrow> lower q = q"
  by (simp add: lower_def lower_space map_idI)

section \<open>Query expansion\<close>

lemma add_variants_eq:
  "add_variants ql t syns acc =
     acc @ map (\<lambda>syn. replace t syn ql) (filter (\<lambda>syn. \<not> py_in syn ql) syns)"
  by (induction syns arbitrary: acc) auto

lemma expand_loop_eq:
  "expand_loop ql tbl acc =
     acc @ concat (map (\<lambda>(t, synonyms).
        if py_in t ql
        then map (\<lambda>syn. replace t syn ql) (filter (\<lambda>syn. \<not> py_in syn ql) (take 2 synonyms))
        else []) tbl)"
  by (induction tbl arbitrary: acc) (auto simp: add_variants_eq)

lemma expand_query_eq: "expand_query q = join_sp (take 3 (q # spec_variants q))"
  by (simp add: expand_query_def spec_variants_def expand_loop_eq Let_def)

lemma no_term_in_spaces:
  assumes "\<forall>c\<in>set q. is_space c" and "(t, syns) \<in> set MEDICAL_SYNONYMS"
  shows "\<not> py_in t q"
proof
  assume "py_in t q"
  then have "\<forall>c\<in>set t. is_space c" using assms(1) py_in_subset by blast
  moreover from assms(2) have "t \<noteq> [] \<and> \<not> is_space (hd t)"
    unfolding MEDICAL_SYNONYMS_def is_space_def by auto
  ultimately show False by (cases t) auto
qed

lemma spec_variants_spaces: "\<forall>c\<in>set q. is_space c \<Longrightarrow> spec_variants q = []"
  using no_term_in_spaces[of q] by (auto simp: spec_variants_def lower_spaces)

text \<open>
  Claim C4. For every query, \<open>expand_query\<close> returns the space-joined first three elements
  of the list made of the query itself followed by the variants: for each table term that
  is a substring of the lower-cased query, in table order, the lower-cased query with the
  term replaced by each of the term's first two synonyms that is not a substring of the
  lower-cased query. So at most three strings are joined, the first being the query as
  given, and a query of whitespace only (the empty query included) is returned as it is.
\<close>

theorem expand_query_contract:
  "expand_query q = join_sp (take 3 (q # spec_variants q)) \<and>
   length (take 3 (q # spec_variants q)) \<le> 3 \<and>
   ((\<forall>c\<in>set q. is_space c) \<longrightarrow> expand_query q = q)"
  by (simp add: expand_query_eq spec_variants_spaces)

theorem expand_query_contract_witness:
  "list_all is_space ''  '' \<and> expand_query ''  '' = ''  ''"
proof -
  have spaces: "\<forall>c\<in>set ''  ''. is_space c" by (simp add: is_space_def)
  with expand_query_contract [of "''  ''"] have "expand_query ''  '' = ''  ''" by blast
  with spaces show ?thesis by (simp add: list_all_iff)
qed

section \<open>Search\<close>

lemma set_slice_to: "set (slice_to k xs) \<subseteq> set xs"
  by (auto simp: slice_to_def dest: in_set_takeD)

lemma slice_to_take: "\<exists>n. slice_to k xs = take n xs"
  by (auto simp: slice_to_def)

lemma set_sort_by_score: "set (sort_by_score rs) = set rs"
  by (simp add: sort_by_score_def)

lemma py_index_mem: "py_index xs i = Inr x \<Longrightarrow> x \<in> set xs"
  by (auto simp: py_index_def Let_def split: if_splits)

lemma collect_results_tail:
  "collect_results st sp (c # cands) = Inr rs \<Longrightarrow>
     \<exists>rs'. collect_results st sp cands = Inr rs' \<and> set rs' \<subseteq> set rs"
  by (cases c) (auto split: sum.splits if_splits bool.splits)

lemma collect_results_sound:
  "collect_results st sp cands = Inr rs \<Longrightarrow> r \<in> set rs \<Longrightarrow>
     \<exists>s i m b t. (s, i) \<in> set cands \<and> \<not> s < MIN_SIMILARITY \<and>
        py_index (metadata st) i = Inr m \<and> species_mismatch sp m = Inr False \<and>
        severity_boost (dict_get m ''severity'' (JStr ''routine'')) = Inr b \<and>
        py_index (documents st) i = Inr t \<and>
        r = \<lparr>score = s * b, result_metadata = m, result_text = t\<rparr>"
proof (induction cands arbitrary: rs)
  case Nil
  then show ?case by simp
next
  case (Cons c cands)
  let ?P = "\<lambda>cs. \<exists>s i m b t. (s, i) \<in> set cs \<and> \<not> s < MIN_SIMILARITY \<and>
        py_index (metadata st) i = Inr m \<and> species_mismatch sp m = Inr False \<and>
        severity_boost (dict_get m ''severity'' (JStr ''routine'')) = Inr b \<and>
        py_index (documents st) i = Inr t \<and>
        r = \<lparr>score = s * b, result_metadata = m, result_text = t\<rparr>"
  have mono: "?P cands \<Longrightarrow> ?P (c # cands)"
    by (elim exE conjE, intro exI conjI) (simp_all)
  obtain sc idx where c: "c = (sc, idx)" by (cases c)
  show ?case
  proof (cases "sc < MIN_SIMILARITY")
    case True
    with Cons.prems c have "collect_results st sp cands = Inr rs" by simp
    from Cons.IH[OF this Cons.prems(2)] mono show ?thesis by simp
  next
    case False
    with Cons.prems(1) c obtain m where m: "py_index (metadata st) idx = Inr m"
      by (auto split: sum.splits)
    with Cons.prems(1) c False obtain mm where mm: "species_mismatch sp m = Inr mm"
      by (auto split: sum.splits)
    show ?thesis
    proof (cases mm)
      case True
      with Cons.prems(1) c False m mm have "collect_results st sp cands = Inr rs" by simp
      from Cons.IH[OF this Cons.prems(2)] mono show ?thesis by simp
    next
      case nomm: False
      with Cons.prems(1) c False m mm obtain b t rs' where
          b: "severity_boost (dict_get m ''severity'' (JStr ''routine'')) = Inr b"
        and t: "py_index (documents st) idx = Inr t"
        and rs': "collect_results st sp cands = Inr rs'"
        and rs: "rs = \<lparr>score = sc * b, result_metadata = m, result_text = t\<rparr> # rs'"
        by (auto split: sum.splits)
      from Cons.prems(2) rs consider
          "r = \<lparr>score = sc * b, result_metadata = m, result_text = t\<rparr>" | "r \<in> set rs'"
        by auto
      then show ?thesis
      proof cases
        case 1
        have "(sc, idx) \<in> set (c # cands)" using c by simp
        moreover from mm nomm have "species_mismatch sp m = Inr False" by simp
        ultimately show ?thesis using 1 False m b t by blast
      next
        case 2
        from Cons.IH[OF rs' 2] mono show ?thesis by simp
      qed
    qed
  qed
qed

lemma collect_results_admitted:
  "collect_results st sp cands = Inr rs \<Longrightarrow> (s, i) \<in> set cands \<Longrightarrow> \<not> s < MIN_SIMILARITY \<Longrightarrow>
   py_index (metadata st) i = Inr m \<Longrightarrow> species_mismatch sp m = Inr False \<Longrightarrow>
   \<exists>b t. severity_boost (dict_get m ''severity'' (JStr ''routine'')) = Inr b \<and>
      py_index (documents st) i = Inr t \<and>
      \<lparr>score = s * b, result_metadata = m, result_text = t\<rparr> \<in> set rs"
proof (induction cands arbitrary: rs)
  case Nil
  then show ?case by simp
next
  case (Cons c cands)
  obtain sc idx where c: "c = (sc, idx)" by (cases c)
  show ?case
  proof (cases "(s, i) = (sc, idx)")
    case True
    with Cons.prems c show ?thesis by (auto split: sum.splits)
  next
    case False
    with Cons.prems(2) c have mem: "(s, i) \<in> set cands" by auto
    from collect_results_tail[OF Cons.prems(1)] obtain rs' where
      rs': "collect_results st sp cands = Inr rs'" and sub: "set rs' \<subseteq> set rs"
      by blast
    from Cons.IH[OF rs' mem Cons.prems(3-5)] sub show ?thesis by blast
  qed
qed

lemma collect_results_threshold:
  "collect_results st sp (filter (\<lambda>(s, i). \<not> s < MIN_SIMILARITY) cands) =
   collect_results st sp cands"
  by (induction cands) (auto split: sum.splits bool.splits)

lemma search_loaded:
  "search bd st q sp k = Inr rs \<Longrightarrow> r \<in> set rs \<Longrightarrow>
   \<exists>cands results. loaded st \<and> index_candidates bd st q k = Inr cands \<and>
      collect_results st sp cands = Inr results \<and> rs = slice_to k (sort_by_score results) \<and>
      r \<in> set results"
  using set_slice_to[of k] set_sort_by_score
  by (fastforce simp: search_def split: if_splits sum.splits)


lemma sorted_sort_by_score: "sorted (map (\<lambda>x. - score x) (sort_by_score rs))"
  by (simp add: sort_by_score_def)

lemma sort_by_score_order:
  assumes "i < length (sort_by_score rs)" and "j < length (sort_by_score rs)"
    and "score (sort_by_score rs ! j) < score (sort_by_score rs ! i)"
  shows "i < j"
proof (rule ccontr)
  assume "\<not> i < j"
  then have "j \<le> i" by simp
  with sorted_sort_by_score[of rs] assms(1)
  have "map (\<lambda>x. - score x) (sort_by_score rs) ! j \<le> map (\<lambda>x. - score x) (sort_by_score rs) ! i"
    by (intro sorted_nth_mono) simp_all
  with assms show False by simp
qed

lemma severity_boost_emergency: "severity_boost (JStr ''emergency'') = Inr 1.5"
  by (simp add: severity_boost_def SEVERITY_BOOST_def dict_get_def)

lemma severity_boost_routine: "severity_boost (JStr ''routine'') = Inr 1.0"
  by (simp add: severity_boost_def SEVERITY_BOOST_def dict_get_def)

lemma search_unfold:
  "search bd st q sp k = Inr rs \<Longrightarrow> loaded st \<Longrightarrow>
   \<exists>cands results. index_candidates bd st q k = Inr cands \<and>
      collect_results st sp cands = Inr results \<and> rs = slice_to k (sort_by_score results)"
  by (auto simp: search_def split: sum.splits)

lemma example_search:
  "search retrieval_boundary example_state ''x'' (Some ''dogs'') 10 =
     Inr [emergency_result, routine_result]"
  by code_simp

text \<open>
  Claim C7. Take two candidates of the index search with the same raw score, at or above
  the threshold, both passing the species filter, the first of severity \<open>emergency\<close> and the
  second of severity \<open>routine\<close>. Whenever \<open>search\<close> returns, the loop has turned the first
  into the result scored 1.5 times the raw score and the second into the result scored 1.0
  times it, each with the metadata and the document of its position; the returned list is
  the slice up to \<open>top_k\<close> of the sorted results of the loop; both results are in that
  ranking, the emergency one strictly before the routine one at every pair of positions,
  in the ranking and in the returned list; and whenever the routine result is in the
  returned list, so is the emergency one.
\<close>

theorem emergency_ranks_above_routine:
  assumes "loaded st"
    and "index_candidates bd st q k = Inr cands"
    and "(s, ia) \<in> set cands" and "(s, ib) \<in> set cands"
    and "MIN_SIMILARITY \<le> s"
    and "py_index (metadata st) ia = Inr ma" and "py_index (metadata st) ib = Inr mb"
    and "species_mismatch sp ma = Inr False" and "species_mismatch sp mb = Inr False"
    and "dict_get ma ''severity'' (JStr ''routine'') = JStr ''emergency''"
    and "dict_get mb ''severity'' (JStr ''routine'') = JStr ''routine''"
    and "search bd st q sp k = Inr rs"
  shows "\<exists>results ta tb.
           collect_results st sp cands = Inr results \<and>
           py_index (documents st) ia = Inr ta \<and>
           py_index (documents st) ib = Inr tb \<and>
           rs = slice_to k (sort_by_score results) \<and>
           \<lparr>score = s * 1.5, result_metadata = ma, result_text = ta\<rparr>
             \<in> set (sort_by_score results) \<and>
           \<lparr>score = s * 1.0, result_metadata = mb, result_text = tb\<rparr>
             \<in> set (sort_by_score results) \<and>
           (\<forall>i j. i < length (sort_by_score results) \<and> j < length (sort_by_score results) \<and>
                  sort_by_score results ! i =
                    \<lparr>score = s * 1.5, result_metadata = ma, result_text = ta\<rparr> \<and>
                  sort_by_score results ! j =
                    \<lparr>score = s * 1.0, result_metadata = mb, result_text = tb\<rparr>
                  \<longrightarrow> i < j) \<and>
           (\<forall>i j. i < length rs \<and> j < length rs \<and>
                  rs ! i = \<lparr>score = s * 1.5, result_metadata = ma, result_text = ta\<rparr> \<and>
                  rs ! j = \<lparr>score = s * 1.0, result_metadata = mb, result_text = tb\<rparr>
                  \<longrightarrow> i < j) \<and>
           (\<lparr>score = s * 1.0, result_metadata = mb, result_text = tb\<rparr> \<in> set rs \<longrightarrow>
            \<lparr>score = s * 1.5, result_metadata = ma, result_text = ta\<rparr> \<in> set rs)"
proof -
  from search_unfold[OF assms(12) assms(1)] assms(2) obtain results where
    res: "collect_results st sp cands = Inr results" and rs: "rs = slice_to k (sort_by_score results)"
    by auto
  have adm: "\<not> s < MIN_SIMILARITY" using assms(5) by simp
  from collect_results_admitted[OF res assms(3) adm assms(6) assms(8)]
  obtain ba ta where
    sba: "severity_boost (dict_get ma ''severity'' (JStr ''routine'')) = Inr ba" and
    tad: "py_index (documents st) ia = Inr ta" and
    ra0: "\<lparr>score = s * ba, result_metadata = ma, result_text = ta\<rparr> \<in> set results"
    by blast
  from sba assms(10) have "Inr ba = (Inr 1.5 :: error + real)"
    by (metis severity_boost_emergency)
  then have bva: "ba = 1.5" by (simp only: sum.inject)
  have ra: "\<lparr>score = s * 1.5, result_metadata = ma, result_text = ta\<rparr> \<in> set results"
    using ra0 by (simp only: bva)
  from collect_results_admitted[OF res assms(4) adm assms(7) assms(9)]
  obtain bb tb where
    sbb: "severity_boost (dict_get mb ''severity'' (JStr ''routine'')) = Inr bb" and
    tbd: "py_index (documents st) ib = Inr tb" and
    rb0: "\<lparr>score = s * bb, result_metadata = mb, result_text = tb\<rparr> \<in> set results"
    by blast
  from sbb assms(11) have "Inr bb = (Inr 1.0 :: error + real)"
    by (metis severity_boost_routine)
  then have bvb: "bb = 1.0" by (simp only: sum.inject)
  have rb: "\<lparr>score = s * 1.0, result_metadata = mb, result_text = tb\<rparr> \<in> set results"
    using rb0 by (simp only: bvb)
  let ?ra = "\<lparr>score = s * 1.5, result_metadata = ma, result_text = ta\<rparr>"
  let ?rb = "\<lparr>score = s * 1.0, result_metadata = mb, result_text = tb\<rparr>"
  let ?ranked = "sort_by_score results"
  have pos: "0 < s" using assms(5) by (simp add: MIN_SIMILARITY_def)
  then have lt: "score ?rb < score ?ra" by simp
  have order: "i < j" if "i < length ?ranked" "j < length ?ranked"
      "?ranked ! i = ?ra" "?ranked ! j = ?rb" for i j
    using sort_by_score_order[of i results j] that lt by simp
  obtain n where n: "rs = take n ?ranked" using rs slice_to_take[of k ?ranked] by auto
  have order_rs: "i < j" if "i < length rs" "j < length rs" "rs ! i = ?ra" "rs ! j = ?rb" for i j
    using order[of i j] that n by simp
  have keep: "?ra \<in> set rs" if "?rb \<in> set rs"
  proof -
    from that obtain j where j: "j < length rs" "rs ! j = ?rb" by (auto simp: in_set_conv_nth)
    from ra have "?ra \<in> set ?ranked" by (simp add: set_sort_by_score)
    then obtain i where i: "i < length ?ranked" "?ranked ! i = ?ra"
      by (auto simp: in_set_conv_nth)
    from j n have j': "j < length ?ranked" "?ranked ! j = ?rb" by simp_all
    from order[OF i(1) j'(1) i(2) j'(2)] have "i < j" .
    with j(1) have "i < length rs" by simp
    moreover from this n i(2) have "rs ! i = ?ra" by simp
    ultimately show ?thesis by (auto simp: in_set_conv_nth)
  qed
  from ra rb have mem: "?ra \<in> set ?ranked" "?rb \<in> set ?ranked"
    by (simp_all add: set_sort_by_score)
  show ?thesis
    by (rule exI[of _ results], rule exI[of _ ta], rule exI[of _ tb])
       (use res tad tbd rs mem order order_rs keep in blast)
qed

lemma example_collect:
  "collect_results example_state (Some ''dogs'') example_found =
     Inr [routine_result, emergency_result]"
  by code_simp

lemma example_ranking:
  "sort_by_score [routine_result, emergency_result] = [emergency_result, routine_result]"
  by code_simp

theorem emergency_ranks_above_routine_witness:
  "search retrieval_boundary example_state ''x'' (Some ''dogs'') 10 =
     Inr [emergency_result, routine_result] \<and>
   collect_results example_state (Some ''dogs'') example_found =
     Inr [routine_result, emergency_result] \<and>
   [emergency_result, routine_result] =
     slice_to 10 (sort_by_score [routine_result, emergency_result]) \<and>
   \<lparr>score = 0.5 * 1.5, result_metadata = emergency_entry, result_text = ''bloat. ''\<rparr>
     \<in> set (sort_by_score [routine_result, emergency_result]) \<and>
   \<lparr>score = 0.5 * 1.0, result_metadata = routine_entry, result_text = ''itch. ''\<rparr>
     \<in> set (sort_by_score [routine_result, emergency_result])"
proof -
  have h1: "loaded example_state" by code_simp
  have h2: "index_candidates retrieval_boundary example_state ''x'' 10 = Inr example_found"
    by code_simp
  have h3: "(0.5, 1) \<in> set example_found" by (simp add: example_found_def)
  have h4: "(0.5, 0) \<in> set example_found" by (simp add: example_found_def)
  have h5: "MIN_SIMILARITY \<le> 0.5" by (simp add: MIN_SIMILARITY_def)
  have h6: "py_index (metadata example_state) 1 = Inr emergency_entry" by code_simp
  have h7: "py_index (metadata example_state) 0 = Inr routine_entry" by code_simp
  have h8: "species_mismatch (Some ''dogs'') emergency_entry = Inr False" by code_simp
  have h9: "species_mismatch (Some ''dogs'') routine_entry = Inr False" by code_simp
  have h10: "dict_get emergency_entry ''severity'' (JStr ''routine'') = JStr ''emergency''"
    by code_simp
  have h11: "dict_get routine_entry ''severity'' (JStr ''routine'') = JStr ''routine''"
    by code_simp
  note h12 = example_search
  have d1: "py_index (documents example_state) 1 = Inr ''bloat. ''" by code_simp
  have d0: "py_index (documents example_state) 0 = Inr ''itch. ''" by code_simp
  from emergency_ranks_above_routine [OF h1 h2 h3 h4 h5 h6 h7 h8 h9 h10 h11 h12]
  obtain results ta tb where
    r1: "collect_results example_state (Some ''dogs'') example_found = Inr results" and
    r2: "py_index (documents example_state) 1 = Inr ta" and
    r3: "py_index (documents example_state) 0 = Inr tb" and
    r4: "[emergency_result, routine_result] = slice_to 10 (sort_by_score results)" and
    r5: "\<lparr>score = 0.5 * 1.5, result_metadata = emergency_entry, result_text = ta\<rparr>
          \<in> set (sort_by_score results)" and
    r6: "\<lparr>score = 0.5 * 1.0, result_metadata = routine_entry, result_text = tb\<rparr>
          \<in> set (sort_by_score results)"
    by blast
  from r1 example_collect have res: "results = [routine_result, emergency_result]"
    by simp
  from r2 d1 have ta: "ta = ''bloat. ''" by simp
  from r3 d0 have tb: "tb = ''itch. ''" by simp
  from r4 r5 r6 show ?thesis
    unfolding res ta tb using h12 example_collect by blast
qed

text \<open>
  Claim C8. When \<open>search\<close> is run with a species filter that is set (a non-empty string)
  and returns, every result's metadata has a \<open>species\<close> field that is a string equal to
  the filter once both are lower-cased.
\<close>

theorem species_filter_correct:
  assumes "search bd st q (Some sp) k = Inr rs" and "sp \<noteq> []" and "r \<in> set rs"
  shows "\<exists>s. map_of (result_metadata r) ''species'' = Some (JStr s) \<and> lower s = lower sp"
proof -
  from search_loaded[OF assms(1) assms(3)] obtain cands results where
    res: "collect_results st (Some sp) cands = Inr results" and r: "r \<in> set results"
    by blast
  from collect_results_sound[OF res r] obtain m where
    mm: "species_mismatch (Some sp) m = Inr False" and rm: "result_metadata r = m"
    by auto
  from assms(2) have nonempty: "lower sp \<noteq> []" by (simp add: lower_def)
  from mm assms(2) obtain s where
    s: "dict_get m ''species'' (JStr []) = JStr s" and eq: "lower s = lower sp"
    by (auto simp: species_mismatch_def split: json.splits)
  from eq nonempty have "s \<noteq> []" by (auto simp: lower_def)
  with s have "map_of m ''species'' = Some (JStr s)"
    by (auto simp: dict_get_def split: option.splits)
  with rm eq show ?thesis by blast
qed

theorem species_filter_correct_witness:
  "search retrieval_boundary example_state ''x'' (Some ''dogs'') 10 =
     Inr [emergency_result, routine_result] \<and>
   (\<exists>s. map_of (result_metadata emergency_result) ''species'' = Some (JStr s) \<and>
        lower s = lower ''dogs'')"
proof -
  have ne: "''dogs'' \<noteq> []" by simp
  have mem: "emergency_result \<in> set [emergency_result, routine_result]" by simp
  from species_filter_correct [OF example_search ne mem] example_search
  show ?thesis by blast
qed

text \<open>
  Claim C9. Every result that \<open>search\<close> returns comes from a candidate of the index search
  whose raw score is at least \<open>MIN_SIMILARITY\<close>, its score being that raw score times the
  severity boost; and the candidates whose raw score is below the threshold are discarded:
  the loop gives the same outcome with and without them.
\<close>

theorem threshold_admission:
  "(search bd st q sp k = Inr rs \<and> r \<in> set rs \<longrightarrow>
      (\<exists>cands s i m b. index_candidates bd st q k = Inr cands \<and> (s, i) \<in> set cands \<and>
          MIN_SIMILARITY \<le> s \<and> py_index (metadata st) i = Inr m \<and>
          severity_boost (dict_get m ''severity'' (JStr ''routine'')) = Inr b \<and>
          score r = s * b \<and> result_metadata r = m)) \<and>
   collect_results st sp (filter (\<lambda>(s, i). MIN_SIMILARITY \<le> s) found) =
   collect_results st sp found"
proof (intro conjI impI)
  assume a: "search bd st q sp k = Inr rs \<and> r \<in> set rs"
  from search_loaded[of bd st q sp k rs r] a obtain cands results where
    c: "index_candidates bd st q k = Inr cands" and
    res: "collect_results st sp cands = Inr results" and r: "r \<in> set results"
    by blast
  from collect_results_sound[OF res r] obtain s i m b t where
    "(s, i) \<in> set cands" "\<not> s < MIN_SIMILARITY" "py_index (metadata st) i = Inr m"
    "severity_boost (dict_get m ''severity'' (JStr ''routine'')) = Inr b"
    "r = \<lparr>score = s * b, result_metadata = m, result_text = t\<rparr>"
    by blast
  with c show "\<exists>cands s i m b. index_candidates bd st q k = Inr cands \<and> (s, i) \<in> set cands \<and>
          MIN_SIMILARITY \<le> s \<and> py_index (metadata st) i = Inr m \<and>
          severity_boost (dict_get m ''severity'' (JStr ''routine'')) = Inr b \<and>
          score r = s * b \<and> result_metadata r = m"
    by (intro exI[of _ cands] exI[of _ s] exI[of _ i] exI[of _ m] exI[of _ b]) simp
next
  have "(\<lambda>(s::real, i::int). MIN_SIMILARITY \<le> s) = (\<lambda>(s, i). \<not> s < MIN_SIMILARITY)"
    by (auto simp: fun_eq_iff)
  then show "collect_results st sp (filter (\<lambda>(s, i). MIN_SIMILARITY \<le> s) found) =
      collect_results st sp found"
    by (simp add: collect_results_threshold)
qed

theorem threshold_admission_witness:
  "search retrieval_boundary example_state ''x'' (Some ''dogs'') 10 =
     Inr [emergency_result, routine_result] \<and>
   (\<exists>cands s i m b.
      index_candidates retrieval_boundary example_state ''x'' 10 = Inr cands \<and>
      (s, i) \<in> set cands \<and> MIN_SIMILARITY \<le> s \<and>
      py_index (metadata example_state) i = Inr m \<and>
      severity_boost (dict_get m ''severity'' (JStr ''routine'')) = Inr b \<and>
      score routine_result = s * b \<and> result_metadata routine_result = m)"
proof -
  have mem: "routine_result \<in> set [emergency_result, routine_result]" by simp
  from threshold_admission [of retrieval_boundary example_state "''x''" "Some ''dogs''" 10
      "[emergency_result, routine_result]" routine_result "[]"] example_search mem
  show ?thesis by blast
qed

section \<open>Response generation\<close>

lemma map_of_dict_set:
  "map_of (dict_set k v d) k' = (if k' = k then Some v else map_of d k')"
  by (induction d) auto

lemma fallback_no_query_metadata:
  "map_of (create_fallback_response bd pd ms e) ''query_metadata'' = None"
  by (simp add: create_fallback_response_def Let_def split: list.splits)

lemma try_generate_fails:
  assumes "generation_fails bd prompt"
  shows "(\<exists>err. try_generate bd pd ms e prompt = Inl err) \<or>
         try_generate bd pd ms e prompt =
           Inr (dict_set ''query_metadata'' (JObj (query_metadata bd ms e))
                  (create_fallback_response bd pd ms e))"
  using assms
  by (auto simp: generation_fails_def try_generate_def
           split: sum.splits option.splits json.splits)

lemma generate_response_fallback:
  assumes "generation_fails bd (prompt_of bd pd q ms)" and "k \<noteq> ''query_metadata''"
  shows "map_of (generate_response bd pd q ms) k =
         map_of (create_fallback_response bd pd ms (detect_emergency q)) k"
proof -
  from try_generate_fails[OF assms(1), of pd ms "detect_emergency q"]
  show ?thesis
    using assms(2)
    by (auto simp: generate_response_def prompt_of_def Let_def map_of_dict_set)
qed

lemma generate_response_parsed:
  assumes "\<not> generation_fails bd (prompt_of bd pd q ms)"
  shows "\<exists>txt m d. generate_content bd (prompt_of bd pd q ms) = Inr txt \<and>
           re_search_braces txt = Some m \<and> json_loads bd m = Inr (JObj d) \<and>
           generate_response bd pd q ms =
             dict_set ''query_metadata'' (JObj (query_metadata bd ms (detect_emergency q))) d"
proof (cases "generate_content bd (prompt_of bd pd q ms)")
  case (Inl err)
  with assms show ?thesis by (simp add: generation_fails_def)
next
  case (Inr out)
  show ?thesis
  proof (cases "re_search_braces out")
    case None
    with assms Inr show ?thesis by (simp add: generation_fails_def)
  next
    case (Some m)
    show ?thesis
    proof (cases "json_loads bd m")
      case (Inl err)
      with assms Inr Some show ?thesis by (simp add: generation_fails_def)
    next
      case parsed: (Inr v)
      with assms Inr Some obtain d where d: "v = JObj d"
        by (cases v) (simp_all add: generation_fails_def)
      from Inr Some parsed d have
        "generate_response bd pd q ms =
           dict_set ''query_metadata'' (JObj (query_metadata bd ms (detect_emergency q))) d"
        by (simp add: generate_response_def try_generate_def prompt_of_def Let_def)
      with Inr Some parsed d show ?thesis by blast
    qed
  qed
qed

lemma generate_response_raises:
  assumes "try_generate bd pd ms (detect_emergency q) (prompt_of bd pd q ms) = Inl err"
  shows "generate_response bd pd q ms = create_fallback_response bd pd ms (detect_emergency q)"
  using assms by (simp add: generate_response_def prompt_of_def Let_def)

lemma no_match_fields:
  "map_of (create_fallback_response bd pd [] e) ''confidence'' = Some (JStr ''low'')"
  "map_of (create_fallback_response bd pd [] e) ''urgency_level'' =
     Some (JStr (if e then ''urgent'' else ''routine''))"
  "map_of (create_fallback_response bd pd [] e) ''service_recommendation'' =
     Some (JStr (if e then ''in_clinic'' else ''video_consult''))"
  by (simp_all add: create_fallback_response_def)

lemma top_match_fields:
  "map_of (create_fallback_response bd pd (m # rest) e) ''confidence'' = Some (JStr ''medium'')"
  "map_of (create_fallback_response bd pd (m # rest) e) ''urgency_level'' =
     Some (dict_get (result_metadata m) ''severity'' (JStr ''routine''))"
  "map_of (create_fallback_response bd pd (m # rest) e) ''service_recommendation'' =
     Some (dict_get (result_metadata m) ''service_recommendation'' (JStr ''video_consult''))"
  by (simp_all add: create_fallback_response_def Let_def)

lemma top_match_only:
  "create_fallback_response bd pd (m # rest) e = create_fallback_response bd pd [m] e'"
  by (simp add: create_fallback_response_def)

lemma fallback_content_keys:
  "k \<in> set content_keys \<Longrightarrow> map_of (create_fallback_response bd pd ms e) k \<noteq> None"
  by (cases ms) (auto simp: content_keys_def create_fallback_response_def Let_def)

lemma example_not_emergency: "detect_emergency example_query = False"
  by code_simp

lemma example_species: "species_filter example_pet = Some ''dogs''"
  by code_simp

lemma search_example_query:
  "search retrieval_boundary example_state example_query (Some ''dogs'') 10 =
     Inr [emergency_result, routine_result]"
  by code_simp

lemma braces_empty_object: "re_search_braces ''{}'' = Some ''{}''"
  by code_simp

lemma braces_high_confidence: "re_search_braces high_confidence_reply = Some high_confidence_reply"
  by code_simp

lemma llm_down_fails: "generation_fails retrieval_boundary prompt"
  by (simp add: generation_fails_def retrieval_boundary_def example_boundary_def llm_down_def)

lemma llm_down_raises: "try_generate retrieval_boundary pd ms e prompt = Inl (Raised ''unavailable'')"
  by (simp add: try_generate_def retrieval_boundary_def example_boundary_def llm_down_def)

lemma no_braces_path_has_query_metadata:
  assumes "generate_content bd (prompt_of bd pd q ms) = Inr out" and "re_search_braces out = None"
  shows "map_of (generate_response bd pd q ms) ''query_metadata'' =
           Some (JObj (query_metadata bd ms (detect_emergency q)))"
  using assms
  by (simp add: generate_response_def try_generate_def prompt_of_def Let_def map_of_dict_set)

lemma search_metadata_mem:
  assumes "search bd st q sp k = Inr rs" and "r \<in> set rs"
  shows "result_metadata r \<in> set (metadata st)"
proof -
  from search_loaded[OF assms] obtain cands results where
    res: "collect_results st sp cands = Inr results" and r: "r \<in> set results"
    by blast
  from collect_results_sound[OF res r] obtain i m where
    "py_index (metadata st) i = Inr m" "result_metadata r = m"
    by auto
  then show ?thesis using py_index_mem by fastforce
qed

lemma fallback_urgency:
  assumes "\<forall>r\<in>set ms. dict_get (result_metadata r) ''severity'' (JStr ''routine'')
             \<in> set urgency_levels"
  shows "\<exists>u\<in>set urgency_levels.
           map_of (create_fallback_response bd pd ms e) ''urgency_level'' = Some u"
proof (cases ms)
  case Nil
  then show ?thesis by (simp add: no_match_fields urgency_levels_def)
next
  case (Cons m rest)
  with assms have "dict_get (result_metadata m) ''severity'' (JStr ''routine'')
      \<in> set urgency_levels" by simp
  with Cons show ?thesis by (simp add: top_match_fields)
qed

lemma py_index_in_range:
  "- int (length xs) \<le> i \<Longrightarrow> i < int (length xs) \<Longrightarrow> \<exists>x. py_index xs i = Inr x"
  by (simp add: py_index_def)

lemma species_mismatch_total: "entry_well_formed m \<Longrightarrow> \<exists>b. species_mismatch sp m = Inr b"
  by (auto simp: species_mismatch_def entry_well_formed_def split: option.splits json.splits)

lemma severity_boost_total:
  "entry_well_formed m \<Longrightarrow>
     \<exists>b. severity_boost (dict_get m ''severity'' (JStr ''routine'')) = Inr b"
  by (auto simp: entry_well_formed_def urgency_levels_def severity_boost_def)

lemma collect_results_total:
  assumes "corpus_well_formed st" and "candidates_in_range st found"
  shows "\<exists>rs. collect_results st sp found = Inr rs"
  using assms(2)
proof (induction found)
  case Nil
  then show ?case by simp
next
  case (Cons c found)
  obtain sc idx where c: "c = (sc, idx)" by (cases c)
  from Cons.prems have rest: "candidates_in_range st found"
    by (simp add: candidates_in_range_def)
  from Cons.IH[OF rest] obtain rs' where rs': "collect_results st sp found = Inr rs'" by blast
  show ?case
  proof (cases "sc < MIN_SIMILARITY")
    case True
    with c rs' show ?thesis by simp
  next
    case False
    with Cons.prems c have range: "- int (length (metadata st)) \<le> idx"
      "idx < int (length (metadata st))"
      by (simp_all add: candidates_in_range_def)
    from py_index_in_range[OF range] obtain m where m: "py_index (metadata st) idx = Inr m"
      by blast
    from assms(1) have len: "length (documents st) = length (metadata st)"
      by (simp add: corpus_well_formed_def)
    from py_index_in_range[of "documents st" idx] range len
    obtain t where t: "py_index (documents st) idx = Inr t" by auto
    from m have "m \<in> set (metadata st)" by (rule py_index_mem)
    with assms(1) have wf: "entry_well_formed m"
      by (simp add: corpus_well_formed_def list_all_iff)
    from species_mismatch_total[OF wf] obtain b where b: "species_mismatch sp m = Inr b"
      by blast
    from severity_boost_total[OF wf] obtain x where
      x: "severity_boost (dict_get m ''severity'' (JStr ''routine'')) = Inr x" by blast
    from c False m t b x rs' show ?thesis by (cases b) simp_all
  qed
qed

lemma search_total:
  assumes "corpus_well_formed st" and "retrieval_returns bd st q"
  shows "\<exists>ms. search bd st q sp TOP_K = Inr ms"
proof (cases "loaded st")
  case False
  then show ?thesis by (simp add: search_def)
next
  case True
  with assms(2) obtain found where
    f: "index_candidates bd st q TOP_K = Inr found" and r: "candidates_in_range st found"
    by (auto simp: retrieval_returns_def split: sum.splits)
  from collect_results_total[OF assms(1) r] obtain rs where
    "collect_results st sp found = Inr rs" by blast
  with True f show ?thesis by (simp add: search_def)
qed

lemma corpus_severities:
  "corpus_well_formed st \<Longrightarrow>
     \<forall>m\<in>set (metadata st). dict_get m ''severity'' (JStr ''routine'') \<in> set urgency_levels"
  by (simp add: corpus_well_formed_def entry_well_formed_def list_all_iff)

lemma example_corpus: "corpus_well_formed example_state"
  by code_simp

lemma example_retrieval: "retrieval_returns retrieval_boundary example_state example_query"
  by code_simp

text \<open>
  Claim C1, at an input where the code departs from it. The generative boundary raises,
  the \<open>except\<close> branch returns the fallback response as it is, and the returned response
  has no \<open>query_metadata\<close> key. The fallback built inside the \<open>try\<close>, when the output has no
  braces, does get the key (\<open>no_braces_path_has_query_metadata\<close>).
\<close>

theorem exception_path_drops_query_metadata:
  "map_of (generate_response retrieval_boundary example_pet example_query []) ''query_metadata''
     = None"
  by (simp add: generate_response_raises [OF llm_down_raises] fallback_no_query_metadata)

text \<open>
  The generative boundary answers with an empty JSON object: the response has the
  \<open>query_metadata\<close> key and no other.
\<close>

theorem empty_object_counterexample:
  "process_query empty_object_boundary init_state example_pet example_query =
     Inr [(''query_metadata'', JObj example_query_metadata)]"
  by (simp add: process_query_def search_def init_state_def generate_response_def
        try_generate_def empty_object_boundary_def example_boundary_def parse_only_def
        braces_empty_object query_metadata_def example_query_metadata_def
        example_not_emergency Let_def)

text \<open>
  Claim C2, amended. On a well-formed corpus, and when the retrieval returns (the system is
  not loaded, or the embedding call and the index search return candidates in range),
  \<open>process_query\<close> does not raise, whatever the generative boundary does: it returns the
  response generated for the matches found. When the generative boundary fails (it raises,
  its output has no braces, or the braces do not parse to a dictionary), the failure is
  resolved locally: the response is the fallback response on every key but
  \<open>query_metadata\<close>, so it has all ten content keys and an urgency level among
  \<open>emergency\<close>, \<open>urgent\<close> and \<open>routine\<close>. When the generative boundary does not fail, the
  response is the dictionary parsed from its output, with \<open>query_metadata\<close> set and no check
  of its keys.
\<close>

theorem process_query_never_raises:
  assumes "corpus_well_formed st" and "retrieval_returns bd st q"
  shows "\<exists>ms. search bd st q (species_filter pd) TOP_K = Inr ms \<and>
           process_query bd st pd q = Inr (generate_response bd pd q ms) \<and>
           (generation_fails bd (prompt_of bd pd q ms) \<longrightarrow>
              (\<forall>k. k \<noteq> ''query_metadata'' \<longrightarrow>
                 map_of (generate_response bd pd q ms) k =
                 map_of (create_fallback_response bd pd ms (detect_emergency q)) k) \<and>
              (\<forall>k\<in>set content_keys. map_of (generate_response bd pd q ms) k \<noteq> None) \<and>
              (\<exists>u\<in>set urgency_levels.
                 map_of (generate_response bd pd q ms) ''urgency_level'' = Some u)) \<and>
           (\<not> generation_fails bd (prompt_of bd pd q ms) \<longrightarrow>
              (\<exists>out m d. generate_content bd (prompt_of bd pd q ms) = Inr out \<and>
                 re_search_braces out = Some m \<and> json_loads bd m = Inr (JObj d) \<and>
                 generate_response bd pd q ms =
                   dict_set ''query_metadata''
                     (JObj (query_metadata bd ms (detect_emergency q))) d))"
proof -
  from search_total[OF assms] obtain ms where
    s: "search bd st q (species_filter pd) TOP_K = Inr ms" by blast
  then have p: "process_query bd st pd q = Inr (generate_response bd pd q ms)"
    by (simp add: process_query_def)
  have fb: "map_of (generate_response bd pd q ms) k =
      map_of (create_fallback_response bd pd ms (detect_emergency q)) k"
    if "generation_fails bd (prompt_of bd pd q ms)" "k \<noteq> ''query_metadata''" for k
    using that by (rule generate_response_fallback)
  have keys: "\<forall>k\<in>set content_keys. map_of (generate_response bd pd q ms) k \<noteq> None"
    if f: "generation_fails bd (prompt_of bd pd q ms)"
  proof
    fix k
    assume k: "k \<in> set content_keys"
    then have "k \<noteq> ''query_metadata''" by (auto simp: content_keys_def)
    from fb[OF f this] fallback_content_keys[OF k]
    show "map_of (generate_response bd pd q ms) k \<noteq> None" by simp
  qed
  have urg: "\<exists>u\<in>set urgency_levels.
      map_of (generate_response bd pd q ms) ''urgency_level'' = Some u"
    if f: "generation_fails bd (prompt_of bd pd q ms)"
  proof -
    have "\<forall>r\<in>set ms. dict_get (result_metadata r) ''severity'' (JStr ''routine'')
          \<in> set urgency_levels"
      using search_metadata_mem[OF s] corpus_severities[OF assms(1)] by blast
    from fallback_urgency[OF this, of bd pd "detect_emergency q"]
      fb[OF f, of "''urgency_level''"]
    show ?thesis by simp
  qed
  have parsed: "\<exists>out m d. generate_content bd (prompt_of bd pd q ms) = Inr out \<and>
       re_search_braces out = Some m \<and> json_loads bd m = Inr (JObj d) \<and>
       generate_response bd pd q ms =
         dict_set ''query_metadata'' (JObj (query_metadata bd ms (detect_emergency q))) d"
    if "\<not> generation_fails bd (prompt_of bd pd q ms)"
    using that by (rule generate_response_parsed)
  show ?thesis
    by (rule exI[of _ ms]) (use s p fb keys urg parsed in blast)
qed

theorem process_query_never_raises_witness:
  "corpus_well_formed example_state \<and>
   retrieval_returns retrieval_boundary example_state example_query \<and>
   generation_fails retrieval_boundary
     (prompt_of retrieval_boundary example_pet example_query [emergency_result, routine_result]) \<and>
   process_query retrieval_boundary example_state example_pet example_query =
     Inr (generate_response retrieval_boundary example_pet example_query
            [emergency_result, routine_result]) \<and>
   list_all (\<lambda>k. map_of (generate_response retrieval_boundary example_pet example_query
                            [emergency_result, routine_result]) k \<noteq> None) content_keys"
proof -
  have s: "search retrieval_boundary example_state example_query (species_filter example_pet)
      TOP_K = Inr [emergency_result, routine_result]"
    by (simp add: example_species TOP_K_def search_example_query)
  from process_query_never_raises [OF example_corpus example_retrieval, of example_pet]
  obtain ms where
    m1: "search retrieval_boundary example_state example_query (species_filter example_pet)
           TOP_K = Inr ms" and
    m2: "process_query retrieval_boundary example_state example_pet example_query =
           Inr (generate_response retrieval_boundary example_pet example_query ms)" and
    m3: "generation_fails retrieval_boundary
           (prompt_of retrieval_boundary example_pet example_query ms) \<longrightarrow>
         (\<forall>k\<in>set content_keys.
            map_of (generate_response retrieval_boundary example_pet example_query ms) k
              \<noteq> None)"
    by blast
  from m1 s have ms: "ms = [emergency_result, routine_result]" by simp
  from m2 m3 llm_down_fails example_corpus example_retrieval show ?thesis
    unfolding ms by (simp add: list_all_iff)
qed

text \<open>
  On a system that is not loaded, the generative boundary answers with an object holding
  a high confidence: that object is returned, not the no-match template.
\<close>

theorem high_confidence_counterexample:
  "process_query high_confidence_boundary init_state example_pet example_query =
     Inr [(''confidence'', JStr ''high''), (''query_metadata'', JObj example_query_metadata)]"
  by (simp add: process_query_def search_def init_state_def generate_response_def
        try_generate_def high_confidence_boundary_def example_boundary_def parse_only_def
        braces_high_confidence query_metadata_def example_query_metadata_def
        example_not_emergency Let_def)

text \<open>
  Claim C3, amended. On a system that is not loaded, \<open>search\<close> returns the empty list for
  every query, species filter and \<open>top_k\<close>, and \<open>process_query\<close> returns the response
  generated for no matches. When the generative boundary fails, that response is the
  no-match template on every key but \<open>query_metadata\<close>, with confidence \<open>low\<close>; when it does
  not fail, the response is the dictionary parsed from its output, with \<open>query_metadata\<close>
  set.
\<close>

theorem unloaded_pipeline:
  assumes "\<not> loaded st"
  shows "search bd st q sp k = Inr [] \<and>
         process_query bd st pd q = Inr (generate_response bd pd q []) \<and>
         (generation_fails bd (prompt_of bd pd q []) \<longrightarrow>
            map_of (generate_response bd pd q []) ''confidence'' = Some (JStr ''low'') \<and>
            (\<forall>k. k \<noteq> ''query_metadata'' \<longrightarrow>
               map_of (generate_response bd pd q []) k =
               map_of (create_fallback_response bd pd [] (detect_emergency q)) k)) \<and>
         (\<not> generation_fails bd (prompt_of bd pd q []) \<longrightarrow>
            (\<exists>out m d. generate_content bd (prompt_of bd pd q []) = Inr out \<and>
               re_search_braces out = Some m \<and> json_loads bd m = Inr (JObj d) \<and>
               generate_response bd pd q [] =
                 dict_set ''query_metadata''
                   (JObj (query_metadata bd [] (detect_emergency q))) d))"
proof (intro conjI impI allI)
  show "search bd st q sp k = Inr []" using assms by (simp add: search_def)
  show "process_query bd st pd q = Inr (generate_response bd pd q [])"
    using assms by (simp add: process_query_def search_def)
next
  assume f: "generation_fails bd (prompt_of bd pd q [])"
  from generate_response_fallback[OF f, of "''confidence''"]
  show "map_of (generate_response bd pd q []) ''confidence'' = Some (JStr ''low'')"
    by (simp add: no_match_fields)
next
  fix k
  assume "generation_fails bd (prompt_of bd pd q [])" and "k \<noteq> ''query_metadata''"
  then show "map_of (generate_response bd pd q []) k =
      map_of (create_fallback_response bd pd [] (detect_emergency q)) k"
    by (rule generate_response_fallback)
next
  assume "\<not> generation_fails bd (prompt_of bd pd q [])"
  then show "\<exists>out m d. generate_content bd (prompt_of bd pd q []) = Inr out \<and>
       re_search_braces out = Some m \<and> json_loads bd m = Inr (JObj d) \<and>
       generate_response bd pd q [] =
         dict_set ''query_metadata'' (JObj (query_metadata bd [] (detect_emergency q))) d"
    by (rule generate_response_parsed)
qed

theorem unloaded_pipeline_witness:
  "search retrieval_boundary init_state example_query (Some ''dogs'') 10 = Inr [] \<and>
   process_query retrieval_boundary init_state example_pet example_query =
     Inr (generate_response retrieval_boundary example_pet example_query []) \<and>
   map_of (generate_response retrieval_boundary example_pet example_query []) ''confidence'' =
     Some (JStr ''low'')"
proof -
  have u: "\<not> loaded init_state" by (simp add: init_state_def)
  from unloaded_pipeline [OF u, of retrieval_boundary example_query "Some ''dogs''" 10
      example_pet] llm_down_fails
  show ?thesis by simp
qed

text \<open>
  Claim C5. When the match list is not empty and the generative boundary fails (it raises,
  its output has no braces, or the braces do not parse to a dictionary), the response has
  confidence \<open>medium\<close>, the urgency level is the top match's severity (\<open>routine\<close> when
  absent), the service recommendation is the top match's (\<open>video_consult\<close> when absent),
  and on every key but \<open>query_metadata\<close> the response is the one built from the top match
  alone, whatever the other matches and the emergency flag are.
\<close>

theorem top_match_fallback:
  assumes "generation_fails bd (prompt_of bd pd q (m # rest))"
  shows "map_of (generate_response bd pd q (m # rest)) ''confidence'' = Some (JStr ''medium'') \<and>
         map_of (generate_response bd pd q (m # rest)) ''urgency_level'' =
           Some (dict_get (result_metadata m) ''severity'' (JStr ''routine'')) \<and>
         map_of (generate_response bd pd q (m # rest)) ''service_recommendation'' =
           Some (dict_get (result_metadata m) ''service_recommendation''
                   (JStr ''video_consult'')) \<and>
         (\<forall>k. k \<noteq> ''query_metadata'' \<longrightarrow>
            map_of (generate_response bd pd q (m # rest)) k =
            map_of (create_fallback_response bd pd [m] False) k)"
proof -
  have same: "create_fallback_response bd pd (m # rest) (detect_emergency q) =
      create_fallback_response bd pd [m] False"
    by (rule top_match_only)
  have "map_of (generate_response bd pd q (m # rest)) k =
      map_of (create_fallback_response bd pd [m] False) k" if "k \<noteq> ''query_metadata''" for k
    using generate_response_fallback[OF assms that] same by simp
  moreover have "''confidence'' \<noteq> ''query_metadata''" "''urgency_level'' \<noteq> ''query_metadata''"
    "''service_recommendation'' \<noteq> ''query_metadata''" by simp_all
  ultimately show ?thesis by (simp add: top_match_fields)
qed

theorem top_match_fallback_witness:
  "generation_fails retrieval_boundary
     (prompt_of retrieval_boundary example_pet example_query [emergency_result, routine_result]) \<and>
   map_of (generate_response retrieval_boundary example_pet example_query
             [emergency_result, routine_result]) ''urgency_level'' = Some (JStr ''emergency'') \<and>
   map_of (generate_response retrieval_boundary example_pet example_query
             [emergency_result, routine_result]) ''service_recommendation'' =
     Some (JStr ''video_consult'') \<and>
   map_of (generate_response retrieval_boundary example_pet example_query
             [emergency_result, routine_result]) ''confidence'' = Some (JStr ''medium'')"
proof -
  have sev: "dict_get (result_metadata emergency_result) ''severity'' (JStr ''routine'') =
      JStr ''emergency''" by code_simp
  have rec: "dict_get (result_metadata emergency_result) ''service_recommendation''
      (JStr ''video_consult'') = JStr ''video_consult''" by code_simp
  from top_match_fallback [OF llm_down_fails, of example_pet example_query emergency_result
      "[routine_result]"] sev rec llm_down_fails
  show ?thesis by simp
qed

text \<open>
  Claim C6. The fallback for an empty match list has confidence \<open>low\<close>, urgency level
  \<open>urgent\<close> when the emergency flag is set and \<open>routine\<close> otherwise, service recommendation
  \<open>in_clinic\<close> when the flag is set and \<open>video_consult\<close> otherwise; it is a fixed template,
  the same for any two calls that agree on the pet's name and the flag; and it is what
  \<open>generate_response\<close> returns, on every key but \<open>query_metadata\<close>, when there is no match
  and the generative boundary fails.
\<close>

theorem no_match_fallback:
  "map_of (create_fallback_response bd pd [] e) ''confidence'' = Some (JStr ''low'') \<and>
   map_of (create_fallback_response bd pd [] e) ''urgency_level'' =
     Some (JStr (if e then ''urgent'' else ''routine'')) \<and>
   map_of (create_fallback_response bd pd [] e) ''service_recommendation'' =
     Some (JStr (if e then ''in_clinic'' else ''video_consult'')) \<and>
   (dict_get pd ''name'' ''Your pet'' = dict_get pd' ''name'' ''Your pet'' \<longrightarrow>
      create_fallback_response bd pd [] e = create_fallback_response bd' pd' [] e) \<and>
   (generation_fails bd (prompt_of bd pd q []) \<longrightarrow>
      (\<forall>k. k \<noteq> ''query_metadata'' \<longrightarrow>
         map_of (generate_response bd pd q []) k =
         map_of (create_fallback_response bd pd [] (detect_emergency q)) k))"
  using generate_response_fallback[of bd pd q "[]"]
  by (simp add: no_match_fields) (simp add: create_fallback_response_def)

theorem no_match_fallback_witness:
  "generation_fails retrieval_boundary (prompt_of retrieval_boundary example_pet example_query []) \<and>
   map_of (generate_response retrieval_boundary example_pet example_query []) ''urgency_level'' =
     Some (JStr ''routine'') \<and>
   map_of (create_fallback_response retrieval_boundary example_pet [] True) ''urgency_level'' =
     Some (JStr ''urgent'') \<and>
   map_of (create_fallback_response retrieval_boundary example_pet [] True)
     ''service_recommendation'' = Some (JStr ''in_clinic'')"
proof -
  note t1 = no_match_fallback [of retrieval_boundary example_pet "detect_emergency example_query"
      example_pet retrieval_boundary example_query]
  note t2 = no_match_fallback [of retrieval_boundary example_pet True example_pet
      retrieval_boundary example_query]
  from t1 t2 llm_down_fails show ?thesis by (simp add: example_not_emergency)
qed

section \<open>Loading\<close>












end
